theory Spec2Isabelle
  imports Main
begin

section \<open>The wire schema of the controller runtime (v1alpha1 controller proto)\<close>

text \<open>
  The proto file declares two services, two enumerations and the request and
  response messages of every RPC. It is data, and it is embedded as data: a file
  descriptor listing every declaration in the order of the file, with the label,
  type, name and number of every field. Lookups by name walk the descriptor.
\<close>

datatype field_label = LSingular | LOptional | LRepeated

datatype field_type = TString | TBool | TEnum string | TMessage string

datatype field_decl =
  Field (f_label: field_label) (f_type: field_type) (f_name: string) (f_number: nat)

datatype message_decl = Message (m_name: string) (m_fields: "field_decl list")

datatype enum_decl = Enum (e_name: string) (e_values: "(string \<times> nat) list")

datatype rpc_decl =
  Rpc (rpc_name: string) (rpc_request: string) (rpc_response: string)
      (rpc_server_streaming: bool)

datatype service_decl = Service (s_name: string) (s_rpcs: "rpc_decl list")

datatype proto_file =
  ProtoFile (pf_enums: "enum_decl list") (pf_messages: "message_decl list")
            (pf_services: "service_decl list")

definition ControllerRuntime_service :: service_decl where
  "ControllerRuntime_service = Service ''ControllerRuntime''
     [Rpc ''RegisterController'' ''RegisterControllerRequest'' ''RegisterControllerResponse'' False,
      Rpc ''Start'' ''StartRequest'' ''StartResponse'' False,
      Rpc ''Stop'' ''StopRequest'' ''StopResponse'' False]"

definition ControllerAdapter_service :: service_decl where
  "ControllerAdapter_service = Service ''ControllerAdapter''
     [Rpc ''ReconcileEvents'' ''ReconcileEventsRequest'' ''ReconcileEventsResponse'' True,
      Rpc ''QueueReconcile'' ''QueueReconcileRequest'' ''QueueReconcileResponse'' False,
      Rpc ''UpdateInputs'' ''UpdateInputsRequest'' ''UpdateInputsResponse'' False,
      Rpc ''Get'' ''RuntimeGetRequest'' ''RuntimeGetResponse'' False,
      Rpc ''List'' ''RuntimeListRequest'' ''RuntimeListResponse'' True,
      Rpc ''WatchFor'' ''RuntimeWatchForRequest'' ''RuntimeWatchForResponse'' False,
      Rpc ''Create'' ''RuntimeCreateRequest'' ''RuntimeCreateResponse'' False,
      Rpc ''Update'' ''RuntimeUpdateRequest'' ''RuntimeUpdateResponse'' False,
      Rpc ''Teardown'' ''RuntimeTeardownRequest'' ''RuntimeTeardownResponse'' False,
      Rpc ''Destroy'' ''RuntimeDestroyRequest'' ''RuntimeDestroyResponse'' False,
      Rpc ''AddFinalizer'' ''RuntimeAddFinalizerRequest'' ''RuntimeAddFinalizerResponse'' False,
      Rpc ''RemoveFinalizer'' ''RuntimeRemoveFinalizerRequest'' ''RuntimeRemoveFinalizerResponse'' False]"

definition ControllerInputKind_enum :: enum_decl where
  "ControllerInputKind_enum =
     Enum ''ControllerInputKind'' [(''WEAK'', 0), (''STRONG'', 1), (''DESTROY_READY'', 2)]"

definition ControllerOutputKind_enum :: enum_decl where
  "ControllerOutputKind_enum =
     Enum ''ControllerOutputKind'' [(''EXCLUSIVE'', 0), (''SHARED'', 1)]"

definition registration_messages :: "message_decl list" where
  "registration_messages =
     [Message ''ControllerInput''
        [Field LSingular (TEnum ''ControllerInputKind'') ''kind'' 1,
         Field LSingular TString ''namespace'' 2,
         Field LSingular TString ''type'' 3,
         Field LOptional TString ''id'' 4],
      Message ''ControllerOutput''
        [Field LSingular TString ''type'' 2,
         Field LSingular (TEnum ''ControllerOutputKind'') ''kind'' 3],
      Message ''RegisterControllerRequest''
        [Field LSingular TString ''controller_name'' 1,
         Field LRepeated (TMessage ''ControllerInput'') ''inputs'' 2,
         Field LRepeated (TMessage ''ControllerOutput'') ''outputs'' 3],
      Message ''RegisterControllerResponse''
        [Field LSingular TString ''controller_token'' 1],
      Message ''StartRequest'' [],
      Message ''StartResponse'' [],
      Message ''StopRequest'' [],
      Message ''StopResponse'' []]"

definition reconcile_messages :: "message_decl list" where
  "reconcile_messages =
     [Message ''ReconcileEventsRequest''
        [Field LSingular TString ''controller_token'' 1],
      Message ''ReconcileEventsResponse'' [],
      Message ''QueueReconcileRequest''
        [Field LSingular TString ''controller_token'' 1],
      Message ''QueueReconcileResponse'' [],
      Message ''UpdateInputsRequest''
        [Field LSingular TString ''controller_token'' 1,
         Field LRepeated (TMessage ''ControllerInput'') ''inputs'' 2],
      Message ''UpdateInputsResponse'' []]"

definition read_messages :: "message_decl list" where
  "read_messages =
     [Message ''RuntimeGetRequest''
        [Field LSingular TString ''controller_token'' 1,
         Field LSingular TString ''namespace'' 2,
         Field LSingular TString ''type'' 3,
         Field LSingular TString ''id'' 4],
      Message ''RuntimeGetResponse''
        [Field LSingular (TMessage ''resource.Resource'') ''resource'' 1],
      Message ''RuntimeListOptions''
        [Field LSingular (TMessage ''resource.LabelQuery'') ''label_query'' 1],
      Message ''RuntimeListRequest''
        [Field LSingular TString ''controller_token'' 1,
         Field LSingular TString ''namespace'' 2,
         Field LSingular TString ''type'' 3,
         Field LSingular (TMessage ''RuntimeListOptions'') ''options'' 4],
      Message ''RuntimeListResponse''
        [Field LSingular (TMessage ''resource.Resource'') ''resource'' 1],
      Message ''RuntimeWatchForRequest''
        [Field LSingular TString ''controller_token'' 1,
         Field LSingular TString ''namespace'' 2,
         Field LSingular TString ''type'' 3,
         Field LSingular TString ''id'' 4,
         Field LSingular (TMessage ''ConditionFinalizersEmpty'') ''finalizers_empty'' 5],
      Message ''ConditionFinalizersEmpty'' [],
      Message ''RuntimeWatchForResponse''
        [Field LSingular (TMessage ''resource.Resource'') ''resource'' 1]]"

definition write_messages :: "message_decl list" where
  "write_messages =
     [Message ''RuntimeCreateRequest''
        [Field LSingular TString ''controller_token'' 1,
         Field LSingular (TMessage ''resource.Resource'') ''resource'' 2],
      Message ''RuntimeCreateResponse'' [],
      Message ''RuntimeUpdateRequest''
        [Field LSingular TString ''controller_token'' 1,
         Field LSingular TString ''current_version'' 2,
         Field LSingular (TMessage ''resource.Resource'') ''new_resource'' 3],
      Message ''RuntimeUpdateResponse'' [],
      Message ''RuntimeTeardownRequest''
        [Field LSingular TString ''controller_token'' 1,
         Field LSingular TString ''namespace'' 2,
         Field LSingular TString ''type'' 3,
         Field LSingular TString ''id'' 4],
      Message ''RuntimeTeardownResponse''
        [Field LSingular TBool ''ready'' 1],
      Message ''RuntimeDestroyRequest''
        [Field LSingular TString ''controller_token'' 1,
         Field LSingular TString ''namespace'' 2,
         Field LSingular TString ''type'' 3,
         Field LSingular TString ''id'' 4],
      Message ''RuntimeDestroyResponse'' [],
      Message ''RuntimeAddFinalizerRequest''
        [Field LSingular TString ''controller_token'' 1,
         Field LSingular TString ''namespace'' 2,
         Field LSingular TString ''type'' 3,
         Field LSingular TString ''id'' 4,
         Field LRepeated TString ''finalizers'' 5],
      Message ''RuntimeAddFinalizerResponse'' [],
      Message ''RuntimeRemoveFinalizerRequest''
        [Field LSingular TString ''controller_token'' 1,
         Field LSingular TString ''namespace'' 2,
         Field LSingular TString ''type'' 3,
         Field LSingular TString ''id'' 4,
         Field LRepeated TString ''finalizers'' 5],
      Message ''RuntimeRemoveFinalizerResponse'' []]"

definition runtime_proto :: proto_file where
  "runtime_proto = ProtoFile
     [ControllerInputKind_enum, ControllerOutputKind_enum]
     (registration_messages @ reconcile_messages @ read_messages @ write_messages)
     [ControllerRuntime_service, ControllerAdapter_service]"

subsection \<open>Lookups in the descriptor\<close>

definition lookup_message :: "proto_file \<Rightarrow> string \<Rightarrow> message_decl option" where
  "lookup_message pf n = find (\<lambda>m. m_name m = n) (pf_messages pf)"

definition lookup_enum :: "proto_file \<Rightarrow> string \<Rightarrow> enum_decl option" where
  "lookup_enum pf n = find (\<lambda>e. e_name e = n) (pf_enums pf)"

definition lookup_service :: "proto_file \<Rightarrow> string \<Rightarrow> service_decl option" where
  "lookup_service pf n = find (\<lambda>s. s_name s = n) (pf_services pf)"

definition message_fields :: "proto_file \<Rightarrow> string \<Rightarrow> field_decl list option" where
  "message_fields pf n = map_option m_fields (lookup_message pf n)"

definition enum_values :: "proto_file \<Rightarrow> string \<Rightarrow> (string \<times> nat) list option" where
  "enum_values pf n = map_option e_values (lookup_enum pf n)"

definition service_rpcs :: "proto_file \<Rightarrow> string \<Rightarrow> rpc_decl list" where
  "service_rpcs pf n = (case lookup_service pf n of None \<Rightarrow> [] | Some s \<Rightarrow> s_rpcs s)"

text \<open>A message carries a field when it is declared and one of its fields has that
  name and that type.\<close>

definition carries_field :: "proto_file \<Rightarrow> string \<Rightarrow> string \<Rightarrow> field_type \<Rightarrow> bool" where
  "carries_field pf msg fld ty =
     (case message_fields pf msg of
        None \<Rightarrow> False
      | Some fs \<Rightarrow> list_ex (\<lambda>f. f_name f = fld \<and> f_type f = ty) fs)"

definition fields_of_type :: "proto_file \<Rightarrow> string \<Rightarrow> field_type \<Rightarrow> string list" where
  "fields_of_type pf msg ty =
     (case message_fields pf msg of
        None \<Rightarrow> []
      | Some fs \<Rightarrow> map f_name (filter (\<lambda>f. f_type f = ty) fs))"

subsection \<open>Messages as values\<close>

text \<open>
  The enumerations and the registration messages as typed values: what a generated
  binding gives a handler. A proto3 \<open>optional\<close> field is a value that may be absent.
\<close>

datatype ControllerInputKind = WEAK | STRONG | DESTROY_READY

datatype ControllerOutputKind = EXCLUSIVE | SHARED

fun ControllerInputKind_number :: "ControllerInputKind \<Rightarrow> nat" where
  "ControllerInputKind_number WEAK = 0"
| "ControllerInputKind_number STRONG = 1"
| "ControllerInputKind_number DESTROY_READY = 2"

fun ControllerInputKind_name :: "ControllerInputKind \<Rightarrow> string" where
  "ControllerInputKind_name WEAK = ''WEAK''"
| "ControllerInputKind_name STRONG = ''STRONG''"
| "ControllerInputKind_name DESTROY_READY = ''DESTROY_READY''"

fun ControllerOutputKind_number :: "ControllerOutputKind \<Rightarrow> nat" where
  "ControllerOutputKind_number EXCLUSIVE = 0"
| "ControllerOutputKind_number SHARED = 1"

fun ControllerOutputKind_name :: "ControllerOutputKind \<Rightarrow> string" where
  "ControllerOutputKind_name EXCLUSIVE = ''EXCLUSIVE''"
| "ControllerOutputKind_name SHARED = ''SHARED''"

record ControllerInput =
  ci_kind :: ControllerInputKind
  ci_namespace :: string
  ci_type :: string
  ci_id :: "string option"

record ControllerOutput =
  co_type :: string
  co_kind :: ControllerOutputKind

record RegisterControllerRequest =
  rc_controller_name :: string
  rc_inputs :: "ControllerInput list"
  rc_outputs :: "ControllerOutput list"

record UpdateInputsRequest =
  ui_controller_token :: string
  ui_inputs :: "ControllerInput list"

section \<open>The registry and the declarations' coverage\<close>

text \<open>
  The handlers behind the RPCs are not among the sources; the proto file only declares
  their messages. The definitions of this section follow the specification's
  description of them, over the typed messages above.
\<close>

text \<open>Modelled from the spec: the registry of controller descriptors is missing from the
  sources. Spec 3: a controller descriptor holds the name, the token, the input
  declarations and the output declarations (subscription handles are left out: nothing
  here reads them). Spec 4.1: resolve(token) gives the descriptor or fails.\<close>

record ControllerDescriptor =
  cd_name :: string
  cd_token :: string
  cd_inputs :: "ControllerInput list"
  cd_outputs :: "ControllerOutput list"

type_synonym registry = "ControllerDescriptor list"

datatype runtime_error = INVALID_TOKEN

definition resolve :: "registry \<Rightarrow> string \<Rightarrow> ControllerDescriptor option" where
  "resolve reg tok = find (\<lambda>d. cd_token d = tok) reg"

text \<open>Modelled from the spec: the UpdateInputs handler of the adapter service and the
  registry operation behind it are missing from the sources. Spec 4.6: every adapter
  call resolves controller_token, an unknown token fails with INVALID_TOKEN. Spec 4.1:
  update_inputs(token, new_inputs) atomically replaces the input set.\<close>

definition update_inputs :: "registry \<Rightarrow> UpdateInputsRequest \<Rightarrow> runtime_error + registry" where
  "update_inputs reg rq =
     (case resolve reg (ui_controller_token rq) of
        None \<Rightarrow> Inl INVALID_TOKEN
      | Some d \<Rightarrow>
          Inr (map (\<lambda>d. if cd_token d = ui_controller_token rq
                         then d\<lparr>cd_inputs := ui_inputs rq\<rparr> else d) reg))"

text \<open>Modelled from the spec: a run of UpdateInputs calls on the missing handler. Spec 7:
  errors are surfaced to the caller, so a failed call leaves the registry as it
  was.\<close>

fun update_inputs_calls :: "registry \<Rightarrow> UpdateInputsRequest list \<Rightarrow> registry" where
  "update_inputs_calls reg [] = reg"
| "update_inputs_calls reg (rq # rqs) =
     (case update_inputs reg rq of
        Inl e \<Rightarrow> update_inputs_calls reg rqs
      | Inr reg' \<Rightarrow> update_inputs_calls reg' rqs)"

text \<open>Modelled from the spec: the dependency graph that matches resources against input
  declarations is missing from the sources. Spec 3: an input declaration is
  (kind, namespace, type, id?), and absence of id means all ids in that namespace of
  that type. Spec 4.3: for subscriptions without an id, all matching resources
  trigger.\<close>

definition input_covers :: "ControllerInput \<Rightarrow> string \<Rightarrow> string \<Rightarrow> string \<Rightarrow> bool" where
  "input_covers inp ns ty rid =
     (ci_namespace inp = ns \<and> ci_type inp = ty \<and>
      (case ci_id inp of None \<Rightarrow> True | Some i \<Rightarrow> i = rid))"

text \<open>Modelled from the spec: the authorization check that matches resources against
  output declarations is missing from the sources. Spec 3: an output declaration is
  (type, kind); outputs are type-scoped, they cover all namespaces.\<close>

definition output_covers :: "ControllerOutput \<Rightarrow> string \<Rightarrow> string \<Rightarrow> string \<Rightarrow> bool" where
  "output_covers out ns ty rid = (co_type out = ty)"

section \<open>Resource definitions (package spec)\<close>

subsection \<open>Go strings\<close>

text \<open>
  A Go string is a sequence of bytes, as \<open>string\<close> is here. The functions of package
  strings that Fill calls are written out for the separator and the arguments it uses.
  genSplit is the loop of strings.genSplit: it cuts at the separator at most as many
  times as its counter says and keeps the rest unsplit.
\<close>

definition is_ascii :: "char \<Rightarrow> bool" where
  "is_ascii c = ((of_char c :: nat) < 128)"

definition is_upper_ascii :: "char \<Rightarrow> bool" where
  "is_upper_ascii c = (65 \<le> (of_char c :: nat) \<and> (of_char c :: nat) \<le> 90)"

definition ascii_lower :: "char \<Rightarrow> char" where
  "ascii_lower c = (if is_upper_ascii c then char_of ((of_char c :: nat) + 32) else c)"

fun Index :: "char \<Rightarrow> string \<Rightarrow> nat option" where
  "Index sep [] = None"
| "Index sep (c # cs) = (if c = sep then Some 0 else map_option Suc (Index sep cs))"

definition Count :: "char \<Rightarrow> string \<Rightarrow> nat" where
  "Count sep s = length (filter (\<lambda>c. c = sep) s)"

fun genSplit :: "char \<Rightarrow> nat \<Rightarrow> string \<Rightarrow> string list" where
  "genSplit sep 0 s = [s]"
| "genSplit sep (Suc k) s =
     (case Index sep s of
        None \<Rightarrow> [s]
      | Some m \<Rightarrow> take m s # genSplit sep k (drop (m + 1) s))"

definition SplitN :: "string \<Rightarrow> char \<Rightarrow> nat \<Rightarrow> string list" where
  "SplitN s sep n = (if n = 0 then [] else genSplit sep (min n (length s + 1) - 1) s)"

definition Split :: "string \<Rightarrow> char \<Rightarrow> string list" where
  "Split s sep = genSplit sep (Count sep s) s"

fun Join :: "string list \<Rightarrow> string \<Rightarrow> string" where
  "Join [] sep = []"
| "Join [x] sep = x"
| "Join (x # y # ys) sep = x @ sep @ Join (y # ys) sep"

definition HasSuffix :: "string \<Rightarrow> string \<Rightarrow> bool" where
  "HasSuffix s suf = (length suf \<le> length s \<and> drop (length s - length suf) s = suf)"

subsection \<open>The two regular expressions\<close>

text \<open>
  Both expressions are anchored at both ends, so MatchString asks whether the whole
  string matches; it is decided by derivatives. Every class of the two expressions is
  ASCII, so a string with a byte outside ASCII matches neither, read as bytes or as
  runes.
\<close>

datatype regexp =
  Null | Eps | Class "(char \<times> char) list"
| Cat regexp regexp | Alt regexp regexp | Rep0 regexp | Rep1 regexp

definition in_class :: "(char \<times> char) list \<Rightarrow> char \<Rightarrow> bool" where
  "in_class rs c =
     list_ex (\<lambda>(lo, hi). (of_char lo :: nat) \<le> of_char c \<and> (of_char c :: nat) \<le> of_char hi) rs"

fun nullable :: "regexp \<Rightarrow> bool" where
  "nullable Null = False"
| "nullable Eps = True"
| "nullable (Class rs) = False"
| "nullable (Cat a b) = (nullable a \<and> nullable b)"
| "nullable (Alt a b) = (nullable a \<or> nullable b)"
| "nullable (Rep0 a) = True"
| "nullable (Rep1 a) = nullable a"

fun deriv :: "char \<Rightarrow> regexp \<Rightarrow> regexp" where
  "deriv c Null = Null"
| "deriv c Eps = Null"
| "deriv c (Class rs) = (if in_class rs c then Eps else Null)"
| "deriv c (Cat a b) =
     (if nullable a then Alt (Cat (deriv c a) b) (deriv c b) else Cat (deriv c a) b)"
| "deriv c (Alt a b) = Alt (deriv c a) (deriv c b)"
| "deriv c (Rep0 a) = Cat (deriv c a) (Rep0 a)"
| "deriv c (Rep1 a) = Cat (deriv c a) (Rep0 a)"

definition MatchString :: "regexp \<Rightarrow> string \<Rightarrow> bool" where
  "MatchString r s = nullable (foldl (\<lambda>r c. deriv c r) r s)"

text \<open>\<^verbatim>\<open>^[A-Z][A-Za-z0-9-]+$\<close>\<close>

definition nameRegexp :: regexp where
  "nameRegexp =
     Cat (Class [(CHR ''A'', CHR ''Z'')])
         (Rep1 (Class [(CHR ''A'', CHR ''Z''), (CHR ''a'', CHR ''z''), (CHR ''0'', CHR ''9''),
                       (CHR ''-'', CHR ''-'')]))"

text \<open>\<^verbatim>\<open>[a-z][a-z0-9-]+\<close>, the label of the suffix expression.\<close>

definition suffix_label :: regexp where
  "suffix_label =
     Cat (Class [(CHR ''a'', CHR ''z'')])
         (Rep1 (Class [(CHR ''a'', CHR ''z''), (CHR ''0'', CHR ''9''), (CHR ''-'', CHR ''-'')]))"

text \<open>\<^verbatim>\<open>^[a-z][a-z0-9-]+(\.[a-z][a-z0-9-]+)*$\<close>\<close>

definition suffixRegexp :: regexp where
  "suffixRegexp =
     Cat suffix_label (Rep0 (Cat (Class [(CHR ''.'', CHR ''.'')]) suffix_label))"

subsection \<open>Slices and their backing arrays\<close>

text \<open>
  A memory is the list of the backing arrays allocated so far, an array's address its
  index; allocation appends. A slice is nil or a header: the array, the offset of its
  first element, its length and its capacity. make allocates a zeroed array and
  returns the slice of all of it; copy writes the first min(len dst, len src) elements
  of the source over the destination's.
\<close>

datatype slice = NilSlice | Slice (sl_array: nat) (sl_off: nat) (sl_len: nat) (sl_cap: nat)

type_synonym 'a memory = "'a list list"

definition len :: "slice \<Rightarrow> nat" where
  "len s = (case s of NilSlice \<Rightarrow> 0 | Slice a off n c \<Rightarrow> n)"

definition cap :: "slice \<Rightarrow> nat" where
  "cap s = (case s of NilSlice \<Rightarrow> 0 | Slice a off n c \<Rightarrow> c)"

definition elems :: "'a memory \<Rightarrow> slice \<Rightarrow> 'a list" where
  "elems m s =
     (case s of
        NilSlice \<Rightarrow> []
      | Slice a off n c \<Rightarrow> (if a < length m then take n (drop off (m ! a)) else []))"

definition make_slice :: "'a \<Rightarrow> 'a memory \<Rightarrow> nat \<Rightarrow> 'a memory \<times> slice" where
  "make_slice zero m n = (m @ [replicate n zero], Slice (length m) 0 n n)"

definition copy_slice :: "'a memory \<Rightarrow> slice \<Rightarrow> slice \<Rightarrow> 'a memory" where
  "copy_slice m dst src =
     (let n = min (len dst) (len src); vs = take n (elems m src) in
      case dst of
        NilSlice \<Rightarrow> m
      | Slice a off dn dc \<Rightarrow>
          (if a < length m
           then m[a := take off (m ! a) @ vs @ drop (off + length vs) (m ! a)]
           else m))"

text \<open>
  append writes the new elements behind the slice's last element when they fit into
  its capacity: the array is written in place, whoever else holds a slice of it, and
  the result is the same header with the new length. When they do not fit, append
  allocates an array, copies the elements over and adds the new ones; the capacity of
  that array is the runtime's choice (the parameter growcap, given the old capacity and
  the length needed), at least the length needed, and the cells beyond the length hold
  the zero value. The values to append are read before anything is written.
\<close>

definition append_slice ::
  "(nat \<Rightarrow> nat \<Rightarrow> nat) \<Rightarrow> 'a \<Rightarrow> 'a memory \<Rightarrow> slice \<Rightarrow> 'a list \<Rightarrow> 'a memory \<times> slice" where
  "append_slice growcap zero m s vs =
     (let need = len s + length vs in
      if need \<le> cap s then
        (case s of
           NilSlice \<Rightarrow> (m, NilSlice)
         | Slice a off n c \<Rightarrow>
             ((if a < length m
               then m[a := take (off + n) (m ! a) @ vs @ drop (off + need) (m ! a)]
               else m),
              Slice a off need c))
      else
        (let newcap = max need (growcap (cap s) need) in
         (m @ [elems m s @ vs @ replicate (newcap - need) zero],
          Slice (length m) 0 need newcap)))"

text \<open>A slice is valid in a memory when its array is allocated and holds its capacity.\<close>

definition valid_slice :: "'a memory \<Rightarrow> slice \<Rightarrow> bool" where
  "valid_slice m s =
     (case s of
        NilSlice \<Rightarrow> True
      | Slice a off n c \<Rightarrow> a < length m \<and> n \<le> c \<and> off + c \<le> length (m ! a))"

text \<open>Two slices share storage when some cell of one array is within the capacity of
  both.\<close>

definition shares_storage :: "slice \<Rightarrow> slice \<Rightarrow> bool" where
  "shares_storage s t =
     (case s of
        NilSlice \<Rightarrow> False
      | Slice a off n c \<Rightarrow>
         (case t of
            NilSlice \<Rightarrow> False
          | Slice a' off' n' c' \<Rightarrow> a = a' \<and> off < off' + c' \<and> off' < off + c))"

subsection \<open>ResourceDefinitionSpec\<close>

text \<open>
  The struct has three slice fields. Fill appends to two of them, in place where the
  capacity allows, and DeepCopy is about the storage behind them, so the fields are
  slice headers and both functions run in a memory of backing arrays.
\<close>

record PrintColumn =
  Name :: string
  JSONPath :: string

record ResourceDefinitionSpec =
  Type :: string
  DisplayType :: string
  DefaultNamespace :: string
  Aliases :: slice
  AllAliases :: slice
  PrintColumns :: slice
  Sensitivity :: string

text \<open>
  What Fill uses and the sources do not hold: the pluralize client (an external
  library), the Unicode tables behind strings.ToLower and unicode.IsUpper for strings
  that are not ASCII, the table allSensitivities of the package (declared in another
  file), of which only the keys matter, and the runtime's choice of capacity when
  append allocates.
\<close>

record externals =
  IsPlural :: "string \<Rightarrow> bool"
  Singular :: "string \<Rightarrow> string"
  unicode_ToLower :: "string \<Rightarrow> string"
  unicode_keep_upper :: "string \<Rightarrow> string"
  allSensitivities :: "string list"
  growcap :: "nat \<Rightarrow> nat \<Rightarrow> nat"

text \<open>strings.ToLower: a string of ASCII bytes is lowered byte by byte; any other goes
  through the Unicode tables.\<close>

definition ToLower :: "externals \<Rightarrow> string \<Rightarrow> string" where
  "ToLower ext s = (if list_all is_ascii s then map ascii_lower s else unicode_ToLower ext s)"

text \<open>strings.Map with the function that keeps a rune when unicode.IsUpper holds and
  drops it otherwise.\<close>

definition keep_upper :: "externals \<Rightarrow> string \<Rightarrow> string" where
  "keep_upper ext s =
     (if list_all is_ascii s then filter is_upper_ascii s else unicode_keep_upper ext s)"

datatype fill_error =
  MissingSuffix | NameEmpty | SuffixEmpty | NameNotCamelCase | NameDoesNotMatch
| SuffixDoesNotMatch | NameNotPlural | UnknownSensitivity string

text \<open>ID computes the id of the resource definition.\<close>

definition ID :: "externals \<Rightarrow> ResourceDefinitionSpec \<Rightarrow> string" where
  "ID ext spec = ToLower ext (Type spec)"

text \<open>
  The loop of Fill over the suffix elements, from the index list \<open>[1 ..< len]\<close>: each
  round appends to AllAliases the lowered name joined with the first i suffix elements.
  The slice literal and the joined string of a round are the round's own and are
  values here.
\<close>

fun Fill_loop ::
  "externals \<Rightarrow> string \<Rightarrow> string list \<Rightarrow> nat list \<Rightarrow> string memory \<Rightarrow>
   ResourceDefinitionSpec \<Rightarrow> string memory \<times> ResourceDefinitionSpec" where
  "Fill_loop ext name suffixElements [] m spec = (m, spec)"
| "Fill_loop ext name suffixElements (i # rest) m spec =
     (let (m, a) = append_slice (growcap ext) [] m (AllAliases spec)
                     [Join (ToLower ext name # take i suffixElements) ''.'']
      in Fill_loop ext name suffixElements rest m (spec\<lparr>AllAliases := a\<rparr>))"

text \<open>
  Fill has a pointer receiver: it runs in the memory of string arrays and returns its
  error (None for nil) together with the memory and the receiver as it has left them.
\<close>

definition Fill ::
  "externals \<Rightarrow> string memory \<Rightarrow> ResourceDefinitionSpec \<Rightarrow>
   fill_error option \<times> string memory \<times> ResourceDefinitionSpec" where
  "Fill ext m spec =
    (let parts = SplitN (Type spec) (CHR ''.'') 2 in
     if length parts = 1 then (Some MissingSuffix, m, spec)
     else
       let name = parts ! 0; suffix = parts ! 1 in
       if length name = 0 then (Some NameEmpty, m, spec)
       else if length suffix = 0 then (Some SuffixEmpty, m, spec)
       else if ToLower ext name = name then (Some NameNotCamelCase, m, spec)
       else if \<not> MatchString nameRegexp name then (Some NameDoesNotMatch, m, spec)
       else if \<not> MatchString suffixRegexp suffix then (Some SuffixDoesNotMatch, m, spec)
       else if \<not> IsPlural ext name then (Some NameNotPlural, m, spec)
       else
         let spec = spec\<lparr>DisplayType := Singular ext name\<rparr>;
             (m, a) = append_slice (growcap ext) [] m (Aliases spec)
                        [ToLower ext (DisplayType spec)];
             spec = spec\<lparr>Aliases := a\<rparr>;
             (m, a) = append_slice (growcap ext) [] m (AllAliases spec) [ToLower ext name];
             spec = spec\<lparr>AllAliases := a\<rparr>;
             suffixElements = Split suffix (CHR ''.'');
             (m, spec) = Fill_loop ext name suffixElements [1 ..< length suffixElements] m spec;
             upperLetters = keep_upper ext name;
             (m, spec) =
               (if length upperLetters > 1 then
                  let (m, a) = append_slice (growcap ext) [] m (Aliases spec)
                                 [ToLower ext upperLetters];
                      spec = spec\<lparr>Aliases := a\<rparr>
                  in if \<not> HasSuffix upperLetters ''S''
                     then let (m, a) = append_slice (growcap ext) [] m (Aliases spec)
                                         [ToLower ext (upperLetters @ ''s'')]
                          in (m, spec\<lparr>Aliases := a\<rparr>)
                     else (m, spec)
                else (m, spec));
             (m, a) = append_slice (growcap ext) [] m (AllAliases spec)
                        (elems m (Aliases spec));
             spec = spec\<lparr>AllAliases := a\<rparr>
         in if Sensitivity spec \<notin> set (allSensitivities ext)
            then (Some (UnknownSensitivity (Sensitivity spec)), m, spec)
            else (None, m, spec))"

definition zero_PrintColumn :: PrintColumn where
  "zero_PrintColumn = \<lparr>Name = [], JSONPath = []\<rparr>"

text \<open>
  DeepCopy has a value receiver: \<open>cp := spec\<close> copies the struct, slice headers
  included. It runs in a memory of string arrays and a memory of PrintColumn arrays
  and returns the memories with the copy.
\<close>

definition DeepCopy ::
  "string memory \<times> PrintColumn memory \<Rightarrow> ResourceDefinitionSpec \<Rightarrow>
   (string memory \<times> PrintColumn memory) \<times> ResourceDefinitionSpec" where
  "DeepCopy h spec =
     (let cp = spec; ms = fst h; mp = snd h;
          (ms, cp) =
            (if Aliases spec \<noteq> NilSlice then
               let (ms, a) = make_slice [] ms (len (Aliases spec));
                   ms = copy_slice ms a (Aliases spec)
               in (ms, cp\<lparr>Aliases := a\<rparr>)
             else (ms, cp));
          (ms, cp) =
            (if AllAliases spec \<noteq> NilSlice then
               let (ms, a) = make_slice [] ms (len (AllAliases spec));
                   ms = copy_slice ms a (AllAliases spec)
               in (ms, cp\<lparr>AllAliases := a\<rparr>)
             else (ms, cp));
          (mp, cp) =
            (if PrintColumns spec \<noteq> NilSlice then
               let (mp, a) = make_slice zero_PrintColumn mp (len (PrintColumns spec));
                   mp = copy_slice mp a (PrintColumns spec)
               in (mp, cp\<lparr>PrintColumns := a\<rparr>)
             else (mp, cp))
      in ((ms, mp), cp))"

text \<open>The step DeepCopy takes for each slice field: a non-nil slice is replaced by a
  new slice of the same length with the elements copied in.\<close>

definition clone :: "'a \<Rightarrow> 'a memory \<Rightarrow> slice \<Rightarrow> 'a memory \<times> slice" where
  "clone zero m s =
     (if s \<noteq> NilSlice then
        let (m1, a) = make_slice zero m (len s) in (copy_slice m1 a s, a)
      else (m, s))"

section \<open>The type-safe writer wrapper (package safe)\<close>

text \<open>
  A value of the interface resource.Resource is nil or a value with its dynamic type.
  A type argument T is given by the dynamic types assignable to it and by what
  \<^verbatim>\<open>%T\<close> prints for its zero value. The type assertion \<^verbatim>\<open>r.(T)\<close> in its two-result
  form fails on nil and on a dynamic type that is not assignable to T.
\<close>

datatype 'v iface = NilIface | Iface (dyn_type: string) (dyn_value: 'v)

record type_param =
  assignable :: "string \<Rightarrow> bool"
  zero_type_name :: string

definition type_name_of :: "'v iface \<Rightarrow> string" where
  "type_name_of r = (case r of NilIface \<Rightarrow> ''<nil>'' | Iface t v \<Rightarrow> t)"

definition type_assert :: "type_param \<Rightarrow> 'v iface \<Rightarrow> 'v iface option" where
  "type_assert T r =
     (case r of
        NilIface \<Rightarrow> None
      | Iface t v \<Rightarrow> (if assignable T t then Some r else None))"

datatype 'e go_error = TypeMismatch string string | Err 'e

text \<open>
  A function that returns an error and may have effects takes the state and returns
  its error (None for nil) with the new state. controller.Writer is an interface of
  another package; of it only the method Modify is called.
\<close>

type_synonym ('v, 'st, 'e) modify_fn = "'v iface \<Rightarrow> 'st \<Rightarrow> 'e go_error option \<times> 'st"

record ('c, 'v, 'st, 'e) Writer =
  Modify :: "'c \<Rightarrow> 'v iface \<Rightarrow> ('v, 'st, 'e) modify_fn \<Rightarrow> 'st \<Rightarrow> 'e go_error option \<times> 'st"

text \<open>The function literal WriterModify hands to writer.Modify.\<close>

definition WriterModify_callback ::
  "type_param \<Rightarrow> ('v, 'st, 'e) modify_fn \<Rightarrow> ('v, 'st, 'e) modify_fn" where
  "WriterModify_callback T fn r st =
     (case type_assert T r of
        None \<Rightarrow> (Some (TypeMismatch (zero_type_name T) (type_name_of r)), st)
      | Some arg \<Rightarrow> fn arg st)"

definition WriterModify ::
  "type_param \<Rightarrow> 'c \<Rightarrow> ('c, 'v, 'st, 'e) Writer \<Rightarrow> 'v iface \<Rightarrow> ('v, 'st, 'e) modify_fn \<Rightarrow>
   'st \<Rightarrow> 'e go_error option \<times> 'st" where
  "WriterModify T ctx writer r fn st = Modify writer ctx r (WriterModify_callback T fn) st"

section \<open>Any resource (package resource)\<close>

text \<open>
  NewMetadataFromProto is a function of the package that the sources do not hold, and
  yaml.Unmarshal is an external library: both are parameters, each returning an error
  or its result. Unmarshal decodes into the variable it is given, here the value field,
  which is still nil (None).
\<close>

record SpecProto =
  GetYaml :: string

record 'v anySpec =
  anySpec_value :: "'v option"
  anySpec_yaml :: string

record ('m, 'v) Any =
  Any_spec :: "'v anySpec"
  Any_md :: 'm

definition MarshalYAMLBytes :: "'v anySpec \<Rightarrow> 'e + string" where
  "MarshalYAMLBytes s = Inr (anySpec_yaml s)"

definition NewAnyFromProto ::
  "('pm \<Rightarrow> 'e + 'm) \<Rightarrow> (string \<Rightarrow> 'v option \<Rightarrow> 'e + 'v option) \<Rightarrow> 'pm \<Rightarrow> SpecProto \<Rightarrow>
   'e + ('m, 'v) Any" where
  "NewAnyFromProto NewMetadataFromProto yaml_Unmarshal protoMd protoSpec =
     (case NewMetadataFromProto protoMd of
        Inl err \<Rightarrow> Inl err
      | Inr md \<Rightarrow>
          (let result = \<lparr>Any_spec = \<lparr>anySpec_value = None, anySpec_yaml = GetYaml protoSpec\<rparr>,
                         Any_md = md\<rparr> in
           case yaml_Unmarshal (anySpec_yaml (Any_spec result)) (anySpec_value (Any_spec result)) of
             Inl err \<Rightarrow> Inl err
           | Inr v \<Rightarrow> Inr (result\<lparr>Any_spec := (Any_spec result)\<lparr>anySpec_value := v\<rparr>\<rparr>)))"

definition Metadata :: "('m, 'v) Any \<Rightarrow> 'm" where
  "Metadata a = Any_md a"

definition Spec :: "('m, 'v) Any \<Rightarrow> 'v anySpec" where
  "Spec a = Any_spec a"

definition Value :: "('m, 'v) Any \<Rightarrow> 'v option" where
  "Value a = anySpec_value (Any_spec a)"

section \<open>Concrete inputs\<close>

text \<open>The inputs at which the theorems below are instantiated.\<close>

definition example_registry :: registry where
  "example_registry =
     [\<lparr>cd_name = ''A'', cd_token = ''t1'',
       cd_inputs = [\<lparr>ci_kind = WEAK, ci_namespace = ''d'', ci_type = ''cfg'', ci_id = Some ''x''\<rparr>],
       cd_outputs = [\<lparr>co_type = ''cfg'', co_kind = EXCLUSIVE\<rparr>]\<rparr>,
      \<lparr>cd_name = ''B'', cd_token = ''t2'', cd_inputs = [],
       cd_outputs = [\<lparr>co_type = ''net'', co_kind = SHARED\<rparr>]\<rparr>]"

definition example_update :: UpdateInputsRequest where
  "example_update =
     \<lparr>ui_controller_token = ''t2'',
      ui_inputs = [\<lparr>ci_kind = STRONG, ci_namespace = ''d'', ci_type = ''cfg'', ci_id = None\<rparr>]\<rparr>"

text \<open>A pluralize client for nouns with a plural in s, the two sensitivities the
  package documents (the empty one and \<open>sensitive\<close>), and a runtime that doubles the
  capacity when append allocates.\<close>

definition example_externals :: externals where
  "example_externals = \<lparr>IsPlural = (\<lambda>s. HasSuffix s ''s''), Singular = butlast,
     unicode_ToLower = (\<lambda>s. s), unicode_keep_upper = (\<lambda>s. []),
     allSensitivities = ['''', ''sensitive''], growcap = (\<lambda>c need. 2 * c)\<rparr>"

text \<open>A spec whose Aliases and AllAliases are slices of one array of capacity 8:
  \<open>backing[:1]\<close>, holding \<open>x\<close>, and \<open>backing[:0]\<close>.\<close>

definition example_backing :: "string memory" where
  "example_backing = [[''x'', [], [], [], [], [], [], []]]"

definition example_spec :: ResourceDefinitionSpec where
  "example_spec = \<lparr>Type = ''Configs.cosi.dev'', DisplayType = '''',
     DefaultNamespace = ''meta'', Aliases = Slice 0 0 1 8, AllAliases = Slice 0 0 0 8,
     PrintColumns = NilSlice, Sensitivity = ''secret''\<rparr>"

definition example_strings :: "string memory" where
  "example_strings =
     [[''config'', ''cfg'', ''spare''], [''configs'', ''configs.cosi'', ''config'', ''cfg'']]"

definition example_columns :: "PrintColumn memory" where
  "example_columns = [[\<lparr>Name = ''Owner'', JSONPath = ''{.owner}''\<rparr>]]"

definition example_spec_mem :: ResourceDefinitionSpec where
  "example_spec_mem = \<lparr>Type = ''Configs.cosi.dev'', DisplayType = ''Config'',
     DefaultNamespace = ''meta'', Aliases = Slice 0 0 2 3, AllAliases = Slice 1 0 4 4,
     PrintColumns = Slice 0 0 1 1, Sensitivity = []\<rparr>"

definition example_copy_mem :: ResourceDefinitionSpec where
  "example_copy_mem = \<lparr>Type = ''Configs.cosi.dev'', DisplayType = ''Config'',
     DefaultNamespace = ''meta'', Aliases = Slice 2 0 2 2, AllAliases = Slice 3 0 4 4,
     PrintColumns = Slice 1 0 1 1, Sensitivity = []\<rparr>"

definition example_type :: type_param where
  "example_type = \<lparr>assignable = (\<lambda>t. t = ''*Config''), zero_type_name = ''*Config''\<rparr>"

text \<open>A writer that calls the function once on the resource it is given, and a function
  that counts its calls and returns no error.\<close>

definition example_writer :: "(unit, nat, nat, unit) Writer" where
  "example_writer = \<lparr>Modify = (\<lambda>ctx r f st. f r st)\<rparr>"

definition example_fn :: "(nat, nat, unit) modify_fn" where
  "example_fn r st = (None, Suc st)"

text \<open>
  A decoder that, as the reader of a YAML decoder does, refuses a document holding a
  control character other than tab, line feed and carriage return, and accepts every
  other document without decoding it.
\<close>

definition control_character :: "char \<Rightarrow> bool" where
  "control_character c =
     ((of_char c :: nat) < 32 \<and> (of_char c :: nat) \<noteq> 9 \<and> (of_char c :: nat) \<noteq> 10
      \<and> (of_char c :: nat) \<noteq> 13)"

definition example_Unmarshal :: "string \<Rightarrow> unit option \<Rightarrow> string + unit option" where
  "example_Unmarshal doc out =
     (if list_ex control_character doc
      then Inl ''yaml: control characters are not allowed''
      else Inr (Some ()))"

definition example_NewMetadataFromProto :: "string \<Rightarrow> string + string" where
  "example_NewMetadataFromProto protoMd = Inr protoMd"

section \<open>Properties of the wire schema\<close>

text \<open>The declarations of the file and the lookup of a message's fields, for the
  simplifier.\<close>

lemmas proto_defs =
  runtime_proto_def registration_messages_def reconcile_messages_def read_messages_def
  write_messages_def ControllerRuntime_service_def ControllerAdapter_service_def
  ControllerInputKind_enum_def ControllerOutputKind_enum_def
  lookup_message_def message_fields_def

text \<open>
  C4. Every request message of every operation on the adapter channel
  (ReconcileEvents, QueueReconcile, UpdateInputs, Get, List, WatchFor, Create, Update,
  Teardown, Destroy, AddFinalizer, RemoveFinalizer) carries a string field
  controller_token: the adapter service declares exactly these twelve RPCs, and the
  request message named by each of them is declared with that field.
\<close>

theorem adapter_requests_carry_controller_token:
  "map rpc_name (service_rpcs runtime_proto ''ControllerAdapter'') =
     [''ReconcileEvents'', ''QueueReconcile'', ''UpdateInputs'', ''Get'', ''List'',
      ''WatchFor'', ''Create'', ''Update'', ''Teardown'', ''Destroy'', ''AddFinalizer'',
      ''RemoveFinalizer'']
   \<and> list_all (\<lambda>r. carries_field runtime_proto (rpc_request r) ''controller_token'' TString)
        (service_rpcs runtime_proto ''ControllerAdapter'')"
  by (simp add: proto_defs service_rpcs_def lookup_service_def carries_field_def)

text \<open>
  C5. The wire-visible enumerations have exactly the declared values and numberings:
  ControllerInputKind has WEAK = 0, STRONG = 1, DESTROY_READY = 2 and
  ControllerOutputKind has EXCLUSIVE = 0, SHARED = 1, with no other members; the file
  declares no other enumeration, and the typed enumerations have these members, names
  and numbers.
\<close>

theorem enumerations_as_declared:
  "enum_values runtime_proto ''ControllerInputKind'' =
     Some [(''WEAK'', 0), (''STRONG'', 1), (''DESTROY_READY'', 2)]
   \<and> enum_values runtime_proto ''ControllerOutputKind'' =
     Some [(''EXCLUSIVE'', 0), (''SHARED'', 1)]
   \<and> map e_name (pf_enums runtime_proto) = [''ControllerInputKind'', ''ControllerOutputKind'']
   \<and> map (\<lambda>k. (ControllerInputKind_name k, ControllerInputKind_number k))
        [WEAK, STRONG, DESTROY_READY] = e_values ControllerInputKind_enum
   \<and> map (\<lambda>k. (ControllerOutputKind_name k, ControllerOutputKind_number k))
        [EXCLUSIVE, SHARED] = e_values ControllerOutputKind_enum
   \<and> (UNIV :: ControllerInputKind set) = {WEAK, STRONG, DESTROY_READY}
   \<and> (UNIV :: ControllerOutputKind set) = {EXCLUSIVE, SHARED}"
proof -
  have declared: "enum_values runtime_proto ''ControllerInputKind'' =
       Some [(''WEAK'', 0), (''STRONG'', 1), (''DESTROY_READY'', 2)]
     \<and> enum_values runtime_proto ''ControllerOutputKind'' =
       Some [(''EXCLUSIVE'', 0), (''SHARED'', 1)]
     \<and> map e_name (pf_enums runtime_proto) = [''ControllerInputKind'', ''ControllerOutputKind'']"
    by (simp add: runtime_proto_def enum_values_def lookup_enum_def
        ControllerInputKind_enum_def ControllerOutputKind_enum_def)
  have typed: "map (\<lambda>k. (ControllerInputKind_name k, ControllerInputKind_number k))
        [WEAK, STRONG, DESTROY_READY] = e_values ControllerInputKind_enum
     \<and> map (\<lambda>k. (ControllerOutputKind_name k, ControllerOutputKind_number k))
        [EXCLUSIVE, SHARED] = e_values ControllerOutputKind_enum"
    by (simp add: ControllerInputKind_enum_def ControllerOutputKind_enum_def)
  have inputs: "(UNIV :: ControllerInputKind set) = {WEAK, STRONG, DESTROY_READY}"
    using ControllerInputKind.exhaust by blast
  have outputs: "(UNIV :: ControllerOutputKind set) = {EXCLUSIVE, SHARED}"
    using ControllerOutputKind.exhaust by blast
  show ?thesis using declared typed inputs outputs by blast
qed



section \<open>Properties of the declarations\<close>

lemma update_inputs_frame:
  assumes "update_inputs reg rq = Inr reg'"
  shows "map cd_outputs reg' = map cd_outputs reg"
    and "map cd_name reg' = map cd_name reg"
    and "map cd_token reg' = map cd_token reg"
    and "map cd_inputs reg' =
         map (\<lambda>d. if cd_token d = ui_controller_token rq then ui_inputs rq else cd_inputs d) reg"
  using assms by (auto simp: update_inputs_def split: option.splits)

lemma update_inputs_calls_frame:
  "map cd_outputs (update_inputs_calls reg rqs) = map cd_outputs reg"
proof (induction rqs arbitrary: reg)
  case Nil
  show ?case by simp
next
  case (Cons rq rqs)
  show ?case
  proof (cases "update_inputs reg rq")
    case (Inl e)
    then show ?thesis using Cons.IH by simp
  next
    case (Inr reg')
    then show ?thesis using Cons.IH [of reg'] update_inputs_frame(1) [OF Inr] by simp
  qed
qed

text \<open>
  C3. UpdateInputs replaces only the controller's input set. The request message
  carries the token and the inputs and has no field of the type of an output
  declaration, which only the registration request has. A call that succeeds replaces
  the inputs of the descriptors with the request's token and leaves every descriptor's
  name, token and outputs as they were; a call that fails returns no registry; so the
  outputs of every descriptor are the same after any run of UpdateInputs calls.
\<close>

theorem update_inputs_keeps_outputs:
  "message_fields runtime_proto ''UpdateInputsRequest'' =
     Some [Field LSingular TString ''controller_token'' 1,
           Field LRepeated (TMessage ''ControllerInput'') ''inputs'' 2]
   \<and> fields_of_type runtime_proto ''UpdateInputsRequest'' (TMessage ''ControllerOutput'') = []
   \<and> fields_of_type runtime_proto ''RegisterControllerRequest'' (TMessage ''ControllerOutput'')
       = [''outputs'']
   \<and> (\<forall>reg'. update_inputs reg rq = Inr reg' \<longrightarrow>
         map cd_outputs reg' = map cd_outputs reg
       \<and> map cd_name reg' = map cd_name reg
       \<and> map cd_token reg' = map cd_token reg
       \<and> map cd_inputs reg' =
           map (\<lambda>d. if cd_token d = ui_controller_token rq then ui_inputs rq else cd_inputs d) reg)
   \<and> map cd_outputs (update_inputs_calls reg rqs) = map cd_outputs reg"
proof -
  have schema: "message_fields runtime_proto ''UpdateInputsRequest'' =
     Some [Field LSingular TString ''controller_token'' 1,
           Field LRepeated (TMessage ''ControllerInput'') ''inputs'' 2]
   \<and> fields_of_type runtime_proto ''UpdateInputsRequest'' (TMessage ''ControllerOutput'') = []
   \<and> fields_of_type runtime_proto ''RegisterControllerRequest'' (TMessage ''ControllerOutput'')
       = [''outputs'']"
    by (simp add: proto_defs fields_of_type_def)
  show ?thesis
    using schema update_inputs_frame update_inputs_calls_frame by blast
qed

text \<open>At the example registry: the second controller replaces its inputs, twice; the
  outputs of both controllers stay.\<close>

theorem update_inputs_keeps_outputs_witness:
  "update_inputs example_registry example_update =
     Inr (example_registry[1 := (example_registry ! 1)\<lparr>cd_inputs := ui_inputs example_update\<rparr>])
   \<and> map cd_outputs
       (example_registry[1 := (example_registry ! 1)\<lparr>cd_inputs := ui_inputs example_update\<rparr>])
     = [[\<lparr>co_type = ''cfg'', co_kind = EXCLUSIVE\<rparr>], [\<lparr>co_type = ''net'', co_kind = SHARED\<rparr>]]
   \<and> map cd_outputs (update_inputs_calls example_registry [example_update, example_update])
     = [[\<lparr>co_type = ''cfg'', co_kind = EXCLUSIVE\<rparr>], [\<lparr>co_type = ''net'', co_kind = SHARED\<rparr>]]"
proof -
  have run: "update_inputs example_registry example_update =
     Inr (example_registry[1 := (example_registry ! 1)\<lparr>cd_inputs := ui_inputs example_update\<rparr>])"
    by (simp add: update_inputs_def resolve_def example_registry_def example_update_def)
  have outs: "map cd_outputs example_registry =
      [[\<lparr>co_type = ''cfg'', co_kind = EXCLUSIVE\<rparr>], [\<lparr>co_type = ''net'', co_kind = SHARED\<rparr>]]"
    by (simp add: example_registry_def)
  show ?thesis
    using update_inputs_keeps_outputs
      [of example_registry example_update "[example_update, example_update]"] run outs
    by simp
qed

text \<open>
  C6. An input declaration is the tuple (kind, namespace, type, optional id): the
  message ControllerInput declares these four fields, the id as optional. A declaration
  whose id is absent covers every id of its type in its namespace, and nothing else; a
  declaration with an id covers that id only.
\<close>

theorem input_declaration_shape_and_coverage:
  "message_fields runtime_proto ''ControllerInput'' =
     Some [Field LSingular (TEnum ''ControllerInputKind'') ''kind'' 1,
           Field LSingular TString ''namespace'' 2,
           Field LSingular TString ''type'' 3,
           Field LOptional TString ''id'' 4]
   \<and> input_covers (inp\<lparr>ci_id := None\<rparr>) ns ty rid = (ci_namespace inp = ns \<and> ci_type inp = ty)
   \<and> input_covers (inp\<lparr>ci_id := Some i\<rparr>) ns ty rid =
       (ci_namespace inp = ns \<and> ci_type inp = ty \<and> i = rid)"
proof -
  have schema: "message_fields runtime_proto ''ControllerInput'' =
     Some [Field LSingular (TEnum ''ControllerInputKind'') ''kind'' 1,
           Field LSingular TString ''namespace'' 2,
           Field LSingular TString ''type'' 3,
           Field LOptional TString ''id'' 4]"
    by (simp add: proto_defs)
  show ?thesis using schema by (simp add: input_covers_def)
qed

text \<open>
  C7. An output declaration consists only of a resource type and a kind: the message
  ControllerOutput declares these two fields and no namespace, and the kind is
  EXCLUSIVE or SHARED. An output declaration covers its type in every namespace (and
  for every id), and whether it covers a resource does not depend on the namespace.
\<close>

theorem output_declaration_shape_and_coverage:
  "message_fields runtime_proto ''ControllerOutput'' =
     Some [Field LSingular TString ''type'' 2,
           Field LSingular (TEnum ''ControllerOutputKind'') ''kind'' 3]
   \<and> enum_values runtime_proto ''ControllerOutputKind'' =
       Some [(''EXCLUSIVE'', 0), (''SHARED'', 1)]
   \<and> \<not> carries_field runtime_proto ''ControllerOutput'' ''namespace'' TString
   \<and> output_covers out ns (co_type out) rid
   \<and> output_covers out ns ty rid = output_covers out ns' ty rid'"
proof -
  have schema: "message_fields runtime_proto ''ControllerOutput'' =
     Some [Field LSingular TString ''type'' 2,
           Field LSingular (TEnum ''ControllerOutputKind'') ''kind'' 3]
   \<and> enum_values runtime_proto ''ControllerOutputKind'' =
       Some [(''EXCLUSIVE'', 0), (''SHARED'', 1)]
   \<and> \<not> carries_field runtime_proto ''ControllerOutput'' ''namespace'' TString"
    by (simp add: proto_defs enum_values_def lookup_enum_def carries_field_def)
  show ?thesis using schema by (simp add: output_covers_def)
qed

section \<open>Properties of Fill\<close>

text \<open>SplitN with the limit 2 returns one part or two, so Fill's reads of parts[0] and
  parts[1] are in range once it has found more than one part.\<close>

lemma SplitN_2_length:
  "length (SplitN s sep 2) = 1 \<or> length (SplitN s sep 2) = 2"
proof (cases s)
  case Nil
  then show ?thesis by (simp add: SplitN_def)
next
  case (Cons c cs)
  then have "SplitN s sep 2 = genSplit sep (Suc 0) s" by (simp add: SplitN_def)
  then show ?thesis by (simp split: option.splits)
qed

text \<open>append returns a slice longer by the number of elements appended, written in
  place or not.\<close>

lemma len_append_slice:
  "len (snd (append_slice g z m s vs)) = len s + length vs"
  by (cases s) (simp_all add: append_slice_def Let_def len_def cap_def)

text \<open>The loop over the suffix elements changes no field but AllAliases, which grows by
  one element a round.\<close>

lemma Fill_loop_frame:
  "\<exists>a. snd (Fill_loop ext name els js m spec) = spec\<lparr>AllAliases := a\<rparr>
       \<and> len a = len (AllAliases spec) + length js"
proof (induction js arbitrary: m spec)
  case Nil
  have "spec = spec\<lparr>AllAliases := AllAliases spec\<rparr>" by simp
  then show ?case by (metis Fill_loop.simps(1) add.right_neutral list.size(3) snd_conv)
next
  case (Cons j js)
  define r where "r = append_slice (growcap ext) [] m (AllAliases spec)
                     [Join (ToLower ext name # take j els) ''.'']"
  have step: "Fill_loop ext name els (j # js) m spec =
      Fill_loop ext name els js (fst r) (spec\<lparr>AllAliases := snd r\<rparr>)"
    by (simp add: r_def split_beta)
  have lr: "len (snd r) = len (AllAliases spec) + 1"
    unfolding r_def by (simp add: len_append_slice)
  obtain a where a: "snd (Fill_loop ext name els js (fst r) (spec\<lparr>AllAliases := snd r\<rparr>)) =
        (spec\<lparr>AllAliases := snd r\<rparr>)\<lparr>AllAliases := a\<rparr>"
      and la: "len a = len (AllAliases (spec\<lparr>AllAliases := snd r\<rparr>)) + length js"
    using Cons.IH by blast
  have "snd (Fill_loop ext name els (j # js) m spec) = spec\<lparr>AllAliases := a\<rparr>"
    using step a by simp
  moreover have "len a = len (AllAliases spec) + length (j # js)"
    using la lr by simp
  ultimately show ?case by blast
qed

text \<open>
  C8. Fill is not atomic on error. For every spec whose Type passes all the structural
  checks (it splits at its first dot into a name and a suffix, both non-empty, the name
  is not all lower case, name and suffix match their expressions, the name is plural)
  and whose Sensitivity is not a key of allSensitivities, Fill returns the
  unknown-sensitivity error, and the receiver is no longer what it was: DisplayType
  holds the singular of the name, the Aliases field holds a longer slice (by the
  lowered DisplayType and by one or two abbreviations when the name has more than one
  upper-case letter), the AllAliases field holds a longer slice. The other fields are
  as they were. This holds in every memory, whatever storage the two slices share.
\<close>

theorem Fill_not_atomic_on_error:
  assumes parts: "SplitN (Type spec) (CHR ''.'') 2 = [name, suffix]"
    and nonempty: "name \<noteq> []" "suffix \<noteq> []"
    and camel: "ToLower ext name \<noteq> name"
    and regexps: "MatchString nameRegexp name" "MatchString suffixRegexp suffix"
    and plural: "IsPlural ext name"
    and unknown: "Sensitivity spec \<notin> set (allSensitivities ext)"
    and run: "Fill ext m spec = (err, m', spec')"
  shows "err = Some (UnknownSensitivity (Sensitivity spec))
       \<and> DisplayType spec' = Singular ext name
       \<and> len (Aliases spec') =
           len (Aliases spec) + 1 +
           (if length (keep_upper ext name) > 1
            then (if HasSuffix (keep_upper ext name) ''S'' then 1 else 2) else 0)
       \<and> len (AllAliases spec) < len (AllAliases spec')
       \<and> Aliases spec' \<noteq> Aliases spec
       \<and> AllAliases spec' \<noteq> AllAliases spec
       \<and> spec' \<noteq> spec
       \<and> Type spec' = Type spec \<and> DefaultNamespace spec' = DefaultNamespace spec
       \<and> PrintColumns spec' = PrintColumns spec \<and> Sensitivity spec' = Sensitivity spec"
proof -
  define g where "g = growcap ext"
  define els where "els = Split suffix (CHR ''.'')"
  define up where "up = keep_upper ext name"
  define spec1 where "spec1 = spec\<lparr>DisplayType := Singular ext name\<rparr>"
  define r1 where "r1 = append_slice g [] m (Aliases spec1) [ToLower ext (DisplayType spec1)]"
  define spec2 where "spec2 = spec1\<lparr>Aliases := snd r1\<rparr>"
  define r2 where "r2 = append_slice g [] (fst r1) (AllAliases spec2) [ToLower ext name]"
  define spec3 where "spec3 = spec2\<lparr>AllAliases := snd r2\<rparr>"
  define r3 where "r3 = Fill_loop ext name els [1 ..< length els] (fst r2) spec3"
  define r4 where "r4 = append_slice g [] (fst r3) (Aliases (snd r3)) [ToLower ext up]"
  define spec4 where "spec4 = (snd r3)\<lparr>Aliases := snd r4\<rparr>"
  define r5 where "r5 = append_slice g [] (fst r4) (Aliases spec4) [ToLower ext (up @ ''s'')]"
  define r6 where "r6 =
     (if length up > 1 then
        (if \<not> HasSuffix up ''S'' then (fst r5, spec4\<lparr>Aliases := snd r5\<rparr>) else (fst r4, spec4))
      else r3)"
  define r7 where "r7 = append_slice g [] (fst r6) (AllAliases (snd r6))
                          (elems (fst r6) (Aliases (snd r6)))"
  define spec7 where "spec7 = (snd r6)\<lparr>AllAliases := snd r7\<rparr>"
  have fill: "Fill ext m spec =
       (if Sensitivity spec7 \<notin> set (allSensitivities ext)
        then (Some (UnknownSensitivity (Sensitivity spec7)), fst r7, spec7)
        else (None, fst r7, spec7))"
    unfolding Fill_def Let_def parts
    using nonempty camel regexps plural
    by (simp add: split_beta spec7_def r7_def r6_def r5_def spec4_def r4_def r3_def spec3_def
        r2_def spec2_def r1_def spec1_def up_def els_def g_def)
  obtain a3 where s3: "snd r3 = spec3\<lparr>AllAliases := a3\<rparr>"
      and l3: "len a3 = len (AllAliases spec3) + length [1 ..< length els]"
    unfolding r3_def using Fill_loop_frame by blast
  have l1: "len (snd r1) = len (Aliases spec) + 1"
    by (simp add: r1_def len_append_slice spec1_def)
  have l2: "len (snd r2) = len (AllAliases spec) + 1"
    by (simp add: r2_def len_append_slice spec2_def spec1_def)
  have l4: "len (snd r4) = len (Aliases spec) + 2"
    using l1 by (simp add: r4_def len_append_slice s3 spec3_def spec2_def)
  have l5: "len (snd r5) = len (Aliases spec) + 3"
    using l4 by (simp add: r5_def len_append_slice spec4_def)
  obtain a6 where s6: "snd r6 = spec3\<lparr>AllAliases := a3, Aliases := a6\<rparr>"
      and l6: "len a6 = len (Aliases spec) + 1 +
           (if length up > 1 then (if HasSuffix up ''S'' then 1 else 2) else 0)"
  proof (cases "length up > 1")
    case False
    have "snd r6 = spec3\<lparr>AllAliases := a3, Aliases := snd r1\<rparr>"
      using False by (simp add: r6_def s3 spec3_def spec2_def)
    then show ?thesis using that [of "snd r1"] l1 False by simp
  next
    case True
    show ?thesis
    proof (cases "HasSuffix up ''S''")
      case True
      have "snd r6 = spec3\<lparr>AllAliases := a3, Aliases := snd r4\<rparr>"
        using True \<open>length up > 1\<close> by (simp add: r6_def spec4_def s3)
      then show ?thesis using that [of "snd r4"] l4 True \<open>length up > 1\<close> by simp
    next
      case False
      have "snd r6 = spec3\<lparr>AllAliases := a3, Aliases := snd r5\<rparr>"
        using False \<open>length up > 1\<close> by (simp add: r6_def spec4_def s3)
      then show ?thesis using that [of "snd r5"] l5 False \<open>length up > 1\<close> by simp
    qed
  qed
  have l7: "len (AllAliases spec) < len (snd r7)"
    using l3 l2 by (simp add: r7_def len_append_slice s6 spec3_def)
  have s7: "spec7 = spec\<lparr>DisplayType := Singular ext name, Aliases := a6, AllAliases := snd r7\<rparr>"
    by (simp add: spec7_def s6 spec3_def spec2_def spec1_def)
  have sens: "Sensitivity spec7 = Sensitivity spec" by (simp add: s7)
  from fill unknown sens run
  have res: "err = Some (UnknownSensitivity (Sensitivity spec))" "spec' = spec7"
    by simp_all
  have na: "a6 \<noteq> Aliases spec"
  proof
    assume "a6 = Aliases spec"
    then have "len a6 = len (Aliases spec)" by simp
    then show False using l6 by simp
  qed
  have nb: "snd r7 \<noteq> AllAliases spec"
  proof
    assume "snd r7 = AllAliases spec"
    then have "len (snd r7) = len (AllAliases spec)" by simp
    then show False using l7 by simp
  qed
  have ns: "spec7 \<noteq> spec"
  proof
    assume "spec7 = spec"
    then have "Aliases spec7 = Aliases spec" by simp
    then show False using na by (simp add: s7)
  qed
  show ?thesis
    using res l6 l7 na nb ns by (simp add: s7 up_def)
qed

text \<open>
  At the example spec, whose Aliases and AllAliases are two slices of one array with
  spare capacity: the type Configs.cosi.dev passes every check, the sensitivity
  \<open>secret\<close> is unknown, and Fill returns its error with DisplayType filled in and both
  slices longer. The appends have written into the shared array, so Aliases, which
  held \<open>x\<close>, now holds \<open>configs\<close> and \<open>configs.cosi\<close>.
\<close>

theorem Fill_not_atomic_on_error_witness:
  "SplitN (Type example_spec) (CHR ''.'') 2 = [''Configs'', ''cosi.dev'']
   \<and> ToLower example_externals ''Configs'' \<noteq> ''Configs''
   \<and> MatchString nameRegexp ''Configs'' \<and> MatchString suffixRegexp ''cosi.dev''
   \<and> IsPlural example_externals ''Configs''
   \<and> Sensitivity example_spec \<notin> set (allSensitivities example_externals)
   \<and> Fill example_externals example_backing example_spec =
       (Some (UnknownSensitivity ''secret''),
        [[''configs'', ''configs.cosi'', ''configs'', ''configs.cosi'', [], [], [], []]],
        example_spec\<lparr>DisplayType := ''Config'', Aliases := Slice 0 0 2 8,
          AllAliases := Slice 0 0 4 8\<rparr>)
   \<and> elems [[''configs'', ''configs.cosi'', ''configs'', ''configs.cosi'', [], [], [], []]]
         (Slice 0 0 2 8) = [''configs'', ''configs.cosi'']
   \<and> len (Aliases example_spec) = 1 \<and> len (AllAliases example_spec) = 0
   \<and> example_spec\<lparr>DisplayType := ''Config'', Aliases := Slice 0 0 2 8,
          AllAliases := Slice 0 0 4 8\<rparr> \<noteq> example_spec"
proof -
  have h1: "SplitN (Type example_spec) (CHR ''.'') 2 = [''Configs'', ''cosi.dev'']"
    by code_simp
  have h2: "''Configs'' \<noteq> []" "''cosi.dev'' \<noteq> []" by simp_all
  have h3: "ToLower example_externals ''Configs'' \<noteq> ''Configs''" by code_simp
  have h4: "MatchString nameRegexp ''Configs''" by code_simp
  have h5: "MatchString suffixRegexp ''cosi.dev''" by code_simp
  have h6: "IsPlural example_externals ''Configs''" by code_simp
  have h7: "Sensitivity example_spec \<notin> set (allSensitivities example_externals)" by code_simp
  have h8: "Fill example_externals example_backing example_spec =
       (Some (UnknownSensitivity ''secret''),
        [[''configs'', ''configs.cosi'', ''configs'', ''configs.cosi'', [], [], [], []]],
        example_spec\<lparr>DisplayType := ''Config'', Aliases := Slice 0 0 2 8,
          AllAliases := Slice 0 0 4 8\<rparr>)"
    by code_simp
  have e: "elems [[''configs'', ''configs.cosi'', ''configs'', ''configs.cosi'', [], [], [], []]]
         (Slice 0 0 2 8) = [''configs'', ''configs.cosi'']"
    by (simp add: elems_def)
  have l: "len (Aliases example_spec) = 1" "len (AllAliases example_spec) = 0"
    by (simp_all add: example_spec_def len_def)
  have ne: "example_spec\<lparr>DisplayType := ''Config'', Aliases := Slice 0 0 2 8,
          AllAliases := Slice 0 0 4 8\<rparr> \<noteq> example_spec"
    using Fill_not_atomic_on_error [OF h1 h2 h3 h4 h5 h6 h7 h8] by blast
  show ?thesis
    using h1 h3 h4 h5 h6 h7 h8 e l ne by blast
qed

section \<open>Properties of DeepCopy\<close>

lemma DeepCopy_clone:
  "DeepCopy (ms, mp) spec =
     (let (ms1, a) = clone [] ms (Aliases spec);
          (ms2, b) = clone [] ms1 (AllAliases spec);
          (mp1, c) = clone zero_PrintColumn mp (PrintColumns spec)
      in ((ms2, mp1), spec\<lparr>Aliases := a, AllAliases := b, PrintColumns := c\<rparr>))"
  by (simp add: DeepCopy_def clone_def Let_def split: prod.splits)

lemma clone_Slice:
  assumes v: "valid_slice m (Slice a off n c)"
  shows "clone z m (Slice a off n c) = (m @ [take n (drop off (m ! a))], Slice (length m) 0 n n)"
proof -
  from v have a: "a < length m" and le: "n \<le> c" "off + c \<le> length (m ! a)"
    by (auto simp: valid_slice_def)
  have l: "length (take n (drop off (m ! a))) = n" using le by simp
  show ?thesis
    using a l le
    by (simp add: clone_def make_slice_def copy_slice_def len_def elems_def Let_def
        nth_append list_update_append)
qed

lemma clone_props:
  assumes v: "valid_slice m s" and c: "clone z m s = (m', t)"
  shows "elems m' t = elems m s"
    and "(t = NilSlice) = (s = NilSlice)"
    and "take (length m) m' = m"
    and "length m \<le> length m'"
    and "s \<noteq> NilSlice \<Longrightarrow> sl_array t = length m \<and> length m' = Suc (length m)"
    and "valid_slice m' t"
    and "len t = len s"
proof -
  show "elems m' t = elems m s" "(t = NilSlice) = (s = NilSlice)" "take (length m) m' = m"
    "length m \<le> length m'" "valid_slice m' t" "len t = len s"
    using v c clone_Slice [of m _ _ _ _ z]
    by (cases s; auto simp: clone_def elems_def valid_slice_def len_def nth_append)+
  show "s \<noteq> NilSlice \<Longrightarrow> sl_array t = length m \<and> length m' = Suc (length m)"
    using v c clone_Slice [of m _ _ _ _ z] by (cases s; auto)
qed

lemma frame_props:
  assumes v: "valid_slice m s" and t: "take (length m) m' = m" and l: "length m \<le> length m'"
  shows "elems m' s = elems m s" and "valid_slice m' s"
proof -
  have nth: "\<And>a. a < length m \<Longrightarrow> m' ! a = m ! a"
    using t by (metis nth_take)
  show "elems m' s = elems m s" "valid_slice m' s"
    using v l nth by (cases s; auto simp: elems_def valid_slice_def)+
qed

lemma fresh_not_shared:
  assumes "valid_slice m s" and "t = NilSlice \<or> length m \<le> sl_array t"
  shows "\<not> shares_storage t s"
  using assms by (cases s; cases t; auto simp: shares_storage_def valid_slice_def)


text \<open>
  C9. For every ResourceDefinitionSpec value s whose slices are valid in the memory,
  s.DeepCopy() is equal to s field by field: the scalar fields are equal and Aliases,
  AllAliases and PrintColumns hold the same elements. A nil slice stays nil; a non-nil
  slice of the copy lies in an array that did not exist before the call, so no slice of
  the copy shares storage with a slice of s (nor with another slice of the copy), and
  the arrays that existed before the call are unchanged.
\<close>

theorem DeepCopy_equal_and_fresh:
  assumes va: "valid_slice ms (Aliases s)"
    and vb: "valid_slice ms (AllAliases s)"
    and vc: "valid_slice mp (PrintColumns s)"
    and dc: "DeepCopy (ms, mp) s = ((ms', mp'), cp)"
  shows "Type cp = Type s \<and> DisplayType cp = DisplayType s
       \<and> DefaultNamespace cp = DefaultNamespace s \<and> Sensitivity cp = Sensitivity s
       \<and> elems ms' (Aliases cp) = elems ms (Aliases s)
       \<and> elems ms' (AllAliases cp) = elems ms (AllAliases s)
       \<and> elems mp' (PrintColumns cp) = elems mp (PrintColumns s)
       \<and> (Aliases cp = NilSlice) = (Aliases s = NilSlice)
       \<and> (AllAliases cp = NilSlice) = (AllAliases s = NilSlice)
       \<and> (PrintColumns cp = NilSlice) = (PrintColumns s = NilSlice)
       \<and> (Aliases s \<noteq> NilSlice \<longrightarrow> length ms \<le> sl_array (Aliases cp))
       \<and> (AllAliases s \<noteq> NilSlice \<longrightarrow> length ms \<le> sl_array (AllAliases cp))
       \<and> (PrintColumns s \<noteq> NilSlice \<longrightarrow> length mp \<le> sl_array (PrintColumns cp))
       \<and> \<not> shares_storage (Aliases cp) (Aliases s)
       \<and> \<not> shares_storage (Aliases cp) (AllAliases s)
       \<and> \<not> shares_storage (AllAliases cp) (Aliases s)
       \<and> \<not> shares_storage (AllAliases cp) (AllAliases s)
       \<and> \<not> shares_storage (PrintColumns cp) (PrintColumns s)
       \<and> \<not> shares_storage (Aliases cp) (AllAliases cp)
       \<and> take (length ms) ms' = ms \<and> take (length mp) mp' = mp"
proof -
  obtain ms1 a where ca: "clone [] ms (Aliases s) = (ms1, a)" by force
  obtain ms2 b where cb: "clone [] ms1 (AllAliases s) = (ms2, b)" by force
  obtain mp1 c where cc: "clone zero_PrintColumn mp (PrintColumns s) = (mp1, c)" by force
  from dc ca cb cc have res: "ms' = ms2" "mp' = mp1"
      "cp = s\<lparr>Aliases := a, AllAliases := b, PrintColumns := c\<rparr>"
    by (simp_all add: DeepCopy_clone)
  note pa = clone_props [OF va ca]
  have vb1: "valid_slice ms1 (AllAliases s)" and eb1: "elems ms1 (AllAliases s) = elems ms (AllAliases s)"
    using frame_props [OF vb pa(3) pa(4)] by simp_all
  note pb = clone_props [OF vb1 cb]
  note pc = clone_props [OF vc cc]
  have ea2: "elems ms2 a = elems ms1 a"
    using frame_props [OF pa(6) pb(3) pb(4)] by simp
  have tk: "take (length ms) ms2 = ms"
  proof -
    have "take (length ms) ms2 = take (length ms) (take (length ms1) ms2)"
      using pa(4) by (simp add: min_def)
    then show ?thesis using pa(3) pb(3) by simp
  qed
  have fa: "a = NilSlice \<or> length ms \<le> sl_array a" using pa(2) pa(5) by auto
  have fb: "b = NilSlice \<or> length ms \<le> sl_array b" using pb(2) pb(5) pa(4) by auto
  have fc: "c = NilSlice \<or> length mp \<le> sl_array c" using pc(2) pc(5) by auto
  have ab: "\<not> shares_storage a b"
  proof (cases "a = NilSlice \<or> b = NilSlice")
    case True
    then show ?thesis by (auto simp: shares_storage_def split: slice.splits)
  next
    case False
    then have "sl_array a = length ms" "sl_array b = length ms1" "length ms1 = Suc (length ms)"
      using pa(2) pa(5) pb(2) pb(5) by auto
    then show ?thesis by (auto simp: shares_storage_def split: slice.splits)
  qed
  have scalars: "Type cp = Type s \<and> DisplayType cp = DisplayType s
       \<and> DefaultNamespace cp = DefaultNamespace s \<and> Sensitivity cp = Sensitivity s"
    by (simp add: res)
  have contents: "elems ms' (Aliases cp) = elems ms (Aliases s)
       \<and> elems ms' (AllAliases cp) = elems ms (AllAliases s)
       \<and> elems mp' (PrintColumns cp) = elems mp (PrintColumns s)"
    using pa(1) pb(1) pc(1) ea2 eb1 by (simp add: res)
  have nils: "(Aliases cp = NilSlice) = (Aliases s = NilSlice)
       \<and> (AllAliases cp = NilSlice) = (AllAliases s = NilSlice)
       \<and> (PrintColumns cp = NilSlice) = (PrintColumns s = NilSlice)"
    using pa(2) pb(2) pc(2) by (simp add: res)
  have fresh: "(Aliases s \<noteq> NilSlice \<longrightarrow> length ms \<le> sl_array (Aliases cp))
       \<and> (AllAliases s \<noteq> NilSlice \<longrightarrow> length ms \<le> sl_array (AllAliases cp))
       \<and> (PrintColumns s \<noteq> NilSlice \<longrightarrow> length mp \<le> sl_array (PrintColumns cp))"
    using fa fb fc pa(2) pb(2) pc(2) by (auto simp: res)
  have disjoint: "\<not> shares_storage (Aliases cp) (Aliases s)
       \<and> \<not> shares_storage (Aliases cp) (AllAliases s)
       \<and> \<not> shares_storage (AllAliases cp) (Aliases s)
       \<and> \<not> shares_storage (AllAliases cp) (AllAliases s)
       \<and> \<not> shares_storage (PrintColumns cp) (PrintColumns s)
       \<and> \<not> shares_storage (Aliases cp) (AllAliases cp)"
    using fresh_not_shared [OF va fa] fresh_not_shared [OF vb fa]
      fresh_not_shared [OF va fb] fresh_not_shared [OF vb fb]
      fresh_not_shared [OF vc fc] ab
    by (simp add: res)
  have old: "take (length ms) ms' = ms \<and> take (length mp) mp' = mp"
    using tk pc(3) by (simp add: res)
  show ?thesis
    using scalars contents nils fresh disjoint old by blast
qed

text \<open>At the example spec, whose Aliases slice has spare capacity: the copy's slices
  lie in the arrays 2 and 3 (strings) and 1 (columns), allocated by the call.\<close>

theorem DeepCopy_equal_and_fresh_witness:
  "valid_slice example_strings (Aliases example_spec_mem)
   \<and> valid_slice example_strings (AllAliases example_spec_mem)
   \<and> valid_slice example_columns (PrintColumns example_spec_mem)
   \<and> DeepCopy (example_strings, example_columns) example_spec_mem =
       ((example_strings @
           [[''config'', ''cfg''], [''configs'', ''configs.cosi'', ''config'', ''cfg'']],
         example_columns @ [[\<lparr>Name = ''Owner'', JSONPath = ''{.owner}''\<rparr>]]),
        example_copy_mem)
   \<and> elems (example_strings @
           [[''config'', ''cfg''], [''configs'', ''configs.cosi'', ''config'', ''cfg'']])
         (Aliases example_copy_mem) = elems example_strings (Aliases example_spec_mem)
   \<and> \<not> shares_storage (Aliases example_copy_mem) (Aliases example_spec_mem)
   \<and> \<not> shares_storage (PrintColumns example_copy_mem) (PrintColumns example_spec_mem)"
proof -
  have v1: "valid_slice example_strings (Aliases example_spec_mem)" by code_simp
  have v2: "valid_slice example_strings (AllAliases example_spec_mem)" by code_simp
  have v3: "valid_slice example_columns (PrintColumns example_spec_mem)" by code_simp
  have dc: "DeepCopy (example_strings, example_columns) example_spec_mem =
       ((example_strings @
           [[''config'', ''cfg''], [''configs'', ''configs.cosi'', ''config'', ''cfg'']],
         example_columns @ [[\<lparr>Name = ''Owner'', JSONPath = ''{.owner}''\<rparr>]]),
        example_copy_mem)"
    by code_simp
  show ?thesis
    using DeepCopy_equal_and_fresh [OF v1 v2 v3 dc] v1 v2 v3 dc by blast
qed

section \<open>Properties of WriterModify\<close>

text \<open>
  C10. For every resource r the writer passes to the callback built by WriterModify:
  if r is not of type T (r is nil or its dynamic type is not assignable to T) the
  callback returns a type-mismatch error without invoking fn (the state is as it was,
  and the result is the same for any other fn); if r is of type T the callback returns
  exactly fn(r). WriterModify itself returns whatever writer.Modify returns for the
  resource and the callback.
\<close>

theorem WriterModify_callback_cases:
  "(type_assert T r = None) = (case r of NilIface \<Rightarrow> True | Iface t v \<Rightarrow> \<not> assignable T t)
   \<and> (type_assert T r = None \<longrightarrow>
        WriterModify_callback T fn r st =
          (Some (TypeMismatch (zero_type_name T) (type_name_of r)), st)
        \<and> WriterModify_callback T fn r st = WriterModify_callback T fn' r st)
   \<and> (type_assert T r \<noteq> None \<longrightarrow>
        type_assert T r = Some r \<and> WriterModify_callback T fn r st = fn r st)
   \<and> WriterModify T ctx writer r fn st = Modify writer ctx r (WriterModify_callback T fn) st"
  by (cases r) (simp_all add: WriterModify_def WriterModify_callback_def type_assert_def)

text \<open>At the example type: a resource of another type and the nil resource give the
  type-mismatch error and leave the call counter at 0; a resource of the type reaches
  the function, which counts one call.\<close>

theorem WriterModify_callback_cases_witness:
  "type_assert example_type (Iface ''*Other'' (7::nat)) = None
   \<and> WriterModify_callback example_type example_fn (Iface ''*Other'' 7) 0 =
       (Some (TypeMismatch ''*Config'' ''*Other''), 0)
   \<and> type_assert example_type (Iface ''*Config'' (7::nat)) \<noteq> None
   \<and> WriterModify_callback example_type example_fn (Iface ''*Config'' 7) 0 = (None, 1)
   \<and> WriterModify example_type () example_writer (Iface ''*Config'' 7) example_fn 0 = (None, 1)
   \<and> WriterModify example_type () example_writer NilIface example_fn 0 =
       (Some (TypeMismatch ''*Config'' ''<nil>''), 0)"
proof -
  have other: "type_assert example_type (Iface ''*Other'' (7::nat)) = None"
    by (simp add: type_assert_def example_type_def)
  have config: "type_assert example_type (Iface ''*Config'' (7::nat)) \<noteq> None"
    by (simp add: type_assert_def example_type_def)
  have nil: "type_assert example_type (NilIface :: nat iface) = None"
    by (simp add: type_assert_def)
  have names: "zero_type_name example_type = ''*Config''"
    "type_name_of (Iface ''*Other'' (7::nat)) = ''*Other''"
    "type_name_of (NilIface :: nat iface) = ''<nil>''"
    by (simp_all add: example_type_def type_name_of_def)
  note a = WriterModify_callback_cases
    [where T = example_type and r = "Iface ''*Other'' (7::nat)" and fn = example_fn
       and fn' = example_fn and st = 0 and ctx = "()" and writer = example_writer]
  note b = WriterModify_callback_cases
    [where T = example_type and r = "Iface ''*Config'' (7::nat)" and fn = example_fn
       and fn' = example_fn and st = 0 and ctx = "()" and writer = example_writer]
  note c = WriterModify_callback_cases
    [where T = example_type and r = "NilIface :: nat iface" and fn = example_fn
       and fn' = example_fn and st = 0 and ctx = "()" and writer = example_writer]
  have a': "WriterModify_callback example_type example_fn (Iface ''*Other'' 7) 0 =
       (Some (TypeMismatch ''*Config'' ''*Other''), 0)"
    using a other names by simp
  have b': "WriterModify_callback example_type example_fn (Iface ''*Config'' 7) 0 = (None, 1)"
    using b config by (simp add: example_fn_def)
  have b'': "WriterModify example_type () example_writer (Iface ''*Config'' 7) example_fn 0
      = (None, 1)"
    using b b' by (simp add: example_writer_def)
  have c': "WriterModify example_type () example_writer NilIface example_fn 0 =
       (Some (TypeMismatch ''*Config'' ''<nil>''), 0)"
    using c nil names by (simp add: example_writer_def)
  show ?thesis using other config a' b' b'' c' by blast
qed

section \<open>Properties of NewAnyFromProto\<close>

text \<open>
  C1, as the specification states it, fails: NewAnyFromProto does not succeed on every
  payload. It hands the payload to the YAML decoder and returns the decoder's error;
  with a decoder that refuses control characters, the payload of the single byte 1 gives
  an error and no resource.
\<close>

theorem NewAnyFromProto_rejects_payload:
  "NewAnyFromProto example_NewMetadataFromProto example_Unmarshal ''md''
     \<lparr>GetYaml = [char_of (1::nat)]\<rparr> = Inl ''yaml: control characters are not allowed''"
  by (simp add: NewAnyFromProto_def example_NewMetadataFromProto_def example_Unmarshal_def
      control_character_def)

text \<open>
  C1, amended. For every metadata proto and every spec payload s, NewAnyFromProto
  succeeds exactly when NewMetadataFromProto succeeds on the metadata and yaml.Unmarshal
  accepts s. Whenever it succeeds, the resulting resource's spec marshals back to
  exactly s, without error (passthrough round trip); its metadata is the converted
  metadata and its value what the decoder made of s.
\<close>

theorem NewAnyFromProto_passthrough:
  fixes mdf :: "'pm \<Rightarrow> 'e + 'm"
  shows "((\<exists>a. NewAnyFromProto mdf unm protoMd protoSpec = Inr a) =
      ((\<exists>md. mdf protoMd = Inr md) \<and> (\<exists>v. unm (GetYaml protoSpec) None = Inr v)))
   \<and> (\<forall>a. NewAnyFromProto mdf unm protoMd protoSpec = Inr a \<longrightarrow>
        MarshalYAMLBytes (Spec a) = (Inr (GetYaml protoSpec) :: 'e + string)
        \<and> mdf protoMd = Inr (Metadata a)
        \<and> unm (GetYaml protoSpec) None = Inr (Value a))"
  by (auto simp: NewAnyFromProto_def MarshalYAMLBytes_def Spec_def Metadata_def Value_def
      Let_def split: sum.splits)

text \<open>At a payload the example decoder accepts.\<close>

theorem NewAnyFromProto_passthrough_witness:
  "NewAnyFromProto example_NewMetadataFromProto example_Unmarshal ''md''
       \<lparr>GetYaml = ''a: 1''\<rparr> =
     Inr \<lparr>Any_spec = \<lparr>anySpec_value = Some (), anySpec_yaml = ''a: 1''\<rparr>, Any_md = ''md''\<rparr>
   \<and> MarshalYAMLBytes
       (Spec \<lparr>Any_spec = \<lparr>anySpec_value = Some (), anySpec_yaml = ''a: 1''\<rparr>, Any_md = ''md''\<rparr>)
     = (Inr ''a: 1'' :: string + string)"
proof -
  have run: "NewAnyFromProto example_NewMetadataFromProto example_Unmarshal ''md''
       \<lparr>GetYaml = ''a: 1''\<rparr> =
     Inr \<lparr>Any_spec = \<lparr>anySpec_value = Some (), anySpec_yaml = ''a: 1''\<rparr>, Any_md = ''md''\<rparr>"
    by (simp add: NewAnyFromProto_def example_NewMetadataFromProto_def example_Unmarshal_def
        control_character_def)
  show ?thesis
    using NewAnyFromProto_passthrough
      [where mdf = example_NewMetadataFromProto and unm = example_Unmarshal
         and protoMd = "''md''" and protoSpec = "\<lparr>GetYaml = ''a: 1''\<rparr>"] run
    by simp
qed


end
